theory Spec2Isabelle
  imports Main "HOL-Library.Word" "HOL-Library.Signed_Division"
begin

unbundle bit_operations_syntax

section \<open>The sequence container\<close>

text \<open>
  \<^verbatim>\<open>SeqContainer<VALUE, IMPL>\<close> owns one data member, \<^verbatim>\<open>_sequence\<close> (a
  \<^verbatim>\<open>std::vector<VALUE>\<close> by default), so a container is modelled by the list of its
  elements. Methods that mutate \<^verbatim>\<open>*this\<close> take the list and return the new one.
  The static member \<^verbatim>\<open>def_value\<close> is \<^verbatim>\<open>VALUE{}\<close>, the zero of the element type.
  Where C++ leaves the behaviour undefined (an access to a vector beyond its size, signed
  overflow, a zero divisor, a shift count out of range) the result is an error value.
\<close>

type_synonym 'a SeqContainer = "'a list"

datatype error = SignedOverflow | DivisionByZero | ShiftOutOfRange | OutOfBounds

text \<open>
  Sizes and indices are \<^verbatim>\<open>std::size_t\<close>, an unsigned 64-bit integer: natural numbers up
  to \<open>SIZE_MAX\<close>, with sums taken modulo \<open>2 ^ 64\<close>. Failure to allocate is not modelled.
\<close>

definition SIZE_MAX :: nat where
  "SIZE_MAX = 2 ^ 64 - 1"

definition size_t_add :: "nat \<Rightarrow> nat \<Rightarrow> nat" where
  "size_t_add a b = (a + b) mod 2 ^ 64"

text \<open>\<^verbatim>\<open>std::vector::operator[]\<close>: defined only below the size.\<close>

definition vector_at :: "'a list \<Rightarrow> nat \<Rightarrow> error + 'a" where
  "vector_at xs i = (if i < length xs then Inr (xs ! i) else Inl OutOfBounds)"

definition def_value :: "'a::zero" where
  "def_value = 0"

definition size_seq :: "'a SeqContainer \<Rightarrow> nat" where
  "size_seq c = length c"

text \<open>
  \<^verbatim>\<open>std::vector::resize(n, value)\<close> keeps the first \<open>n\<close> elements and appends copies of
  \<open>value\<close> up to length \<open>n\<close>.
\<close>

definition vector_resize :: "nat \<Rightarrow> 'a \<Rightarrow> 'a list \<Rightarrow> 'a list" where
  "vector_resize n v xs = take n xs @ replicate (n - length xs) v"

text \<open>\<^verbatim>\<open>SeqContainer::resize(size, value)\<close> with its three branches.\<close>

definition resize_value :: "nat \<Rightarrow> 'a::zero \<Rightarrow> 'a SeqContainer \<Rightarrow> 'a SeqContainer" where
  "resize_value n v c =
     (if n \<ge> length c then vector_resize n v c
      else if n > 0 then vector_resize n 0 c
      else [])"

text \<open>\<^verbatim>\<open>SeqContainer::resize(size)\<close> calls \<^verbatim>\<open>resize(size, value_type{})\<close>.\<close>

definition resize :: "nat \<Rightarrow> 'a::zero SeqContainer \<Rightarrow> 'a SeqContainer" where
  "resize n c = resize_value n 0 c"

text \<open>
  The const \<^verbatim>\<open>operator[]\<close>: the element when the index is in range, \<^verbatim>\<open>def_value\<close>
  otherwise. The method is const, so there is no new container to return.
\<close>

definition index_const :: "'a::zero SeqContainer \<Rightarrow> nat \<Rightarrow> 'a" where
  "index_const c i = (if i < length c then c ! i else def_value)"

text \<open>
  The mutable \<^verbatim>\<open>operator[]\<close> calls \<^verbatim>\<open>resize(index + 1)\<close> when the index is not below
  the size, and returns \<^verbatim>\<open>_sequence[index]\<close>, a reference to the slot. The sum is a
  \<^verbatim>\<open>std::size_t\<close>: at \<open>index = SIZE_MAX\<close> it is 0, the container is emptied and the slot
  returned lies beyond its size. \<open>index_mut\<close> is the container after the call;
  \<open>index_mut_read\<close> reads through the reference and \<open>index_mut_write\<close> assigns through
  it (\<^verbatim>\<open>c[i] = v\<close>).
\<close>

definition index_mut :: "'a::zero SeqContainer \<Rightarrow> nat \<Rightarrow> 'a SeqContainer" where
  "index_mut c i = (if i \<ge> length c then resize (size_t_add i 1) c else c)"

definition index_mut_read ::
  "'a::zero SeqContainer \<Rightarrow> nat \<Rightarrow> error + ('a \<times> 'a SeqContainer)"
where
  "index_mut_read c i =
     (let c' = index_mut c i
      in case vector_at c' i of Inl e \<Rightarrow> Inl e | Inr v \<Rightarrow> Inr (v, c'))"

definition index_mut_write ::
  "'a::zero SeqContainer \<Rightarrow> nat \<Rightarrow> 'a \<Rightarrow> error + 'a SeqContainer"
where
  "index_mut_write c i v =
     (let c' = index_mut c i
      in case vector_at c' i of Inl e \<Rightarrow> Inl e | Inr old \<Rightarrow> Inr (c'[i := v]))"

subsection \<open>Comparison\<close>

datatype partial_ordering = less | equivalent | greater | unordered



subsection \<open>Rotation\<close>

text \<open>
  \<^verbatim>\<open>std::ranges::rotate(r, middle)\<close> moves the element at \<open>middle\<close> to the front: with
  \<open>middle = begin + m\<close> the range becomes the elements from \<open>m\<close> on, followed by the
  first \<open>m\<close>.
\<close>

definition ranges_rotate :: "nat \<Rightarrow> 'a list \<Rightarrow> 'a list" where
  "ranges_rotate m xs = drop m xs @ take m xs"

definition rotate_left :: "nat \<Rightarrow> 'a SeqContainer \<Rightarrow> 'a SeqContainer" where
  "rotate_left shift c =
     (if length c > 0
      then ranges_rotate (length c - shift mod length c) c
      else c)"

definition rotate_right :: "nat \<Rightarrow> 'a SeqContainer \<Rightarrow> 'a SeqContainer" where
  "rotate_right shift c =
     (if length c > 0
      then ranges_rotate (shift mod length c) c
      else c)"

text \<open>The loop \<^verbatim>\<open>for (i = 0; i < shift; ++i) _sequence[i] = value_type{0}\<close>.\<close>

function zero_front :: "nat \<Rightarrow> nat \<Rightarrow> 'a::zero list \<Rightarrow> 'a list" where
  "zero_front i shift xs =
     (if i < shift then zero_front (i + 1) shift (xs[i := 0]) else xs)"
  by pat_completeness auto
termination
  by (relation "measure (\<lambda>(i, shift, xs). shift - i)") auto

declare zero_front.simps [simp del]

text \<open>
  The loop \<^verbatim>\<open>while (i-- > limit) _sequence[i] = 0\<close>: the test reads \<open>i\<close>, then \<open>i\<close> is
  decremented and the body runs with the decremented value.
\<close>

function zero_back :: "nat \<Rightarrow> nat \<Rightarrow> 'a::zero list \<Rightarrow> 'a list" where
  "zero_back i limit xs =
     (if i > limit then zero_back (i - 1) limit (xs[i - 1 := 0]) else xs)"
  by pat_completeness auto
termination
  by (relation "measure (\<lambda>(i, limit, xs). i)") auto

declare zero_back.simps [simp del]

definition rotate_left_and_drop :: "nat \<Rightarrow> 'a::zero SeqContainer \<Rightarrow> 'a SeqContainer" where
  "rotate_left_and_drop shift c =
     (let c1 = rotate_left shift c
      in if length c1 > 0 then zero_front 0 (shift mod length c1) c1 else c1)"

definition rotate_right_and_drop :: "nat \<Rightarrow> 'a::zero SeqContainer \<Rightarrow> 'a SeqContainer" where
  "rotate_right_and_drop shift c =
     (let c1 = rotate_right shift c
      in if length c1 > 0
         then zero_back (length c1) (length c1 - shift mod length c1) c1
         else c1)"

text \<open>
  The argument of \<^verbatim>\<open>shift(int index)\<close> and \<^verbatim>\<open>cshift(int index)\<close> is a 32-bit two's
  complement integer, read by \<open>sint\<close>. \<^verbatim>\<open>std::abs\<close> is undefined at the least value,
  whose absolute value is not an \<^verbatim>\<open>int\<close>. Passing an \<^verbatim>\<open>int\<close> for a \<^verbatim>\<open>std::size_t\<close>
  parameter converts it modulo \<open>2 ^ 64\<close>.
\<close>

type_synonym c_int = "32 word"

definition INT_MIN :: c_int where
  "INT_MIN = word_of_int (- (2 ^ 31))"

definition std_abs :: "c_int \<Rightarrow> error + c_int" where
  "std_abs j =
     (if j = INT_MIN then Inl SignedOverflow
      else Inr (if sint j < 0 then - j else j))"

definition size_t_of_int :: "c_int \<Rightarrow> nat" where
  "size_t_of_int j = nat (sint j mod 2 ^ 64)"

definition shift :: "c_int \<Rightarrow> 'a::zero SeqContainer \<Rightarrow> error + 'a SeqContainer" where
  "shift index c =
     (if sint index > 0 then Inr (rotate_left_and_drop (size_t_of_int index) c)
      else (case std_abs index of
              Inl e \<Rightarrow> Inl e
            | Inr a \<Rightarrow> Inr (rotate_right_and_drop (size_t_of_int a) c)))"

definition cshift :: "c_int \<Rightarrow> 'a SeqContainer \<Rightarrow> error + 'a SeqContainer" where
  "cshift index c =
     (if sint index > 0 then Inr (rotate_left (size_t_of_int index) c)
      else (case std_abs index of
              Inl e \<Rightarrow> Inl e
            | Inr a \<Rightarrow> Inr (rotate_right (size_t_of_int a) c)))"

section \<open>Element values and the operation catalogue\<close>

text \<open>
  The element type is the template parameter \<^verbatim>\<open>VALUE\<close>; its default, \<^verbatim>\<open>intmax_t\<close>, is
  a 64-bit two's complement integer. The built-in operators are partial: where C++ leaves
  the result undefined (signed overflow, a zero divisor, a shift count outside \<open>0..63\<close>)
  the result is an error.
\<close>

type_synonym intmax = "64 word"

definition INTMAX_MIN :: intmax where
  "INTMAX_MIN = word_of_int (- (2 ^ 63))"

definition representable :: "int \<Rightarrow> bool" where
  "representable k \<longleftrightarrow> - (2 ^ 63) \<le> k \<and> k < 2 ^ 63"

definition checked :: "int \<Rightarrow> error + intmax" where
  "checked k = (if representable k then Inr (word_of_int k) else Inl SignedOverflow)"

definition builtin_add :: "intmax \<Rightarrow> intmax \<Rightarrow> error + intmax" where
  "builtin_add a b = checked (sint a + sint b)"

definition builtin_sub :: "intmax \<Rightarrow> intmax \<Rightarrow> error + intmax" where
  "builtin_sub a b = checked (sint a - sint b)"

definition builtin_mul :: "intmax \<Rightarrow> intmax \<Rightarrow> error + intmax" where
  "builtin_mul a b = checked (sint a * sint b)"

text \<open>Division truncates towards zero; the quotient of the least value by \<open>-1\<close> overflows.\<close>

definition builtin_div :: "intmax \<Rightarrow> intmax \<Rightarrow> error + intmax" where
  "builtin_div a b =
     (if b = 0 then Inl DivisionByZero else checked (sint a sdiv sint b))"

definition builtin_mod :: "intmax \<Rightarrow> intmax \<Rightarrow> error + intmax" where
  "builtin_mod a b =
     (if b = 0 then Inl DivisionByZero
      else if \<not> representable (sint a sdiv sint b) then Inl SignedOverflow
      else Inr (word_of_int (sint a smod sint b)))"

definition builtin_and :: "intmax \<Rightarrow> intmax \<Rightarrow> error + intmax" where
  "builtin_and a b = Inr (a AND b)"

definition builtin_or :: "intmax \<Rightarrow> intmax \<Rightarrow> error + intmax" where
  "builtin_or a b = Inr (a OR b)"

definition builtin_xor :: "intmax \<Rightarrow> intmax \<Rightarrow> error + intmax" where
  "builtin_xor a b = Inr (a XOR b)"

definition builtin_shl :: "intmax \<Rightarrow> intmax \<Rightarrow> error + intmax" where
  "builtin_shl a b =
     (if 0 \<le> sint b \<and> sint b < 64 then Inr (push_bit (nat (sint b)) a)
      else Inl ShiftOutOfRange)"

definition builtin_shr :: "intmax \<Rightarrow> intmax \<Rightarrow> error + intmax" where
  "builtin_shr a b =
     (if 0 \<le> sint b \<and> sint b < 64 then Inr (signed_drop_bit (nat (sint b)) a)
      else Inl ShiftOutOfRange)"

definition builtin_neg :: "intmax \<Rightarrow> error + intmax" where
  "builtin_neg a = checked (- sint a)"

definition builtin_compl :: "intmax \<Rightarrow> intmax" where
  "builtin_compl a = NOT a"

text \<open>
  The structs of \<^verbatim>\<open>Operator_Templates.h\<close>. Each has four static overloads of
  \<^verbatim>\<open>apply\<close>, told apart by the value categories of the two arguments:
  \<^verbatim>\<open>(T const&, T const&)\<close>, \<^verbatim>\<open>(T&&, T const&)\<close>, \<^verbatim>\<open>(T const&, T&&)\<close> and
  \<^verbatim>\<open>(T&&, T&&)\<close>. A compound assignment \<^verbatim>\<open>a += b; return std::move(a)\<close> yields the
  value of \<open>a + b\<close>, and \<^verbatim>\<open>b += a\<close> that of \<open>b + a\<close>. The \<^verbatim>\<open>(T const&, T&&)\<close>
  overloads of the two shift structs are written \<^verbatim>\<open>a >>= b; return std::move(a)\<close>
  on the const operand; the model takes the value that this update computes.
\<close>

datatype binary_op =
  Add_Op | Sub_Op | Mul_Op | Div_Op | Mod_Op | And_Op | Or_Op | Xor_Op
  | LeftShift_Op | RightShift_Op

datatype overload = const_const | rvalue_const | const_rvalue | rvalue_rvalue

fun apply_op :: "binary_op \<Rightarrow> overload \<Rightarrow> intmax \<Rightarrow> intmax \<Rightarrow> error + intmax" where
  "apply_op Add_Op const_const a b = builtin_add a b"
| "apply_op Add_Op rvalue_const a b = builtin_add a b"
| "apply_op Add_Op const_rvalue a b = builtin_add b a"
| "apply_op Add_Op rvalue_rvalue a b = builtin_add a b"
| "apply_op Sub_Op const_const a b = builtin_sub a b"
| "apply_op Sub_Op rvalue_const a b = builtin_sub a b"
| "apply_op Sub_Op const_rvalue a b = builtin_sub a b"
| "apply_op Sub_Op rvalue_rvalue a b = builtin_sub a b"
| "apply_op Mul_Op const_const a b = builtin_mul a b"
| "apply_op Mul_Op rvalue_const a b = builtin_mul a b"
| "apply_op Mul_Op const_rvalue a b = builtin_mul b a"
| "apply_op Mul_Op rvalue_rvalue a b = builtin_mul a b"
| "apply_op Div_Op const_const a b = builtin_div a b"
| "apply_op Div_Op rvalue_const a b = builtin_div a b"
| "apply_op Div_Op const_rvalue a b = builtin_div a b"
| "apply_op Div_Op rvalue_rvalue a b = builtin_div a b"
| "apply_op Mod_Op const_const a b = (if b \<noteq> 0 then builtin_mod a b else Inr 0)"
| "apply_op Mod_Op rvalue_const a b = builtin_mod a b"
| "apply_op Mod_Op const_rvalue a b = builtin_mod a b"
| "apply_op Mod_Op rvalue_rvalue a b = builtin_mod a b"
| "apply_op And_Op const_const a b = builtin_and a b"
| "apply_op And_Op rvalue_const a b = builtin_and a b"
| "apply_op And_Op const_rvalue a b = builtin_and b a"
| "apply_op And_Op rvalue_rvalue a b = builtin_and a b"
| "apply_op Or_Op const_const a b = builtin_or a b"
| "apply_op Or_Op rvalue_const a b = builtin_or a b"
| "apply_op Or_Op const_rvalue a b = builtin_or b a"
| "apply_op Or_Op rvalue_rvalue a b = builtin_or a b"
| "apply_op Xor_Op const_const a b = builtin_xor a b"
| "apply_op Xor_Op rvalue_const a b = builtin_xor a b"
| "apply_op Xor_Op const_rvalue a b = builtin_xor b a"
| "apply_op Xor_Op rvalue_rvalue a b = builtin_xor a b"
| "apply_op LeftShift_Op const_const a b = builtin_shl a b"
| "apply_op LeftShift_Op rvalue_const a b = builtin_shl a b"
| "apply_op LeftShift_Op const_rvalue a b = builtin_shr a b"
| "apply_op LeftShift_Op rvalue_rvalue a b = builtin_shl a b"
| "apply_op RightShift_Op const_const a b = builtin_shr a b"
| "apply_op RightShift_Op rvalue_const a b = builtin_shr a b"
| "apply_op RightShift_Op const_rvalue a b = builtin_shr a b"
| "apply_op RightShift_Op rvalue_rvalue a b = builtin_shr a b"

text \<open>
  The compound assignment operator of the element type that the container's operator
  of the same name applies to each slot (\<^verbatim>\<open>_sequence[i] += b[i]\<close> and so on).
\<close>

fun builtin_assign :: "binary_op \<Rightarrow> intmax \<Rightarrow> intmax \<Rightarrow> error + intmax" where
  "builtin_assign Add_Op = builtin_add"
| "builtin_assign Sub_Op = builtin_sub"
| "builtin_assign Mul_Op = builtin_mul"
| "builtin_assign Div_Op = builtin_div"
| "builtin_assign Mod_Op = builtin_mod"
| "builtin_assign And_Op = builtin_and"
| "builtin_assign Or_Op = builtin_or"
| "builtin_assign Xor_Op = builtin_xor"
| "builtin_assign LeftShift_Op = builtin_shl"
| "builtin_assign RightShift_Op = builtin_shr"

section \<open>Expression nodes\<close>

text \<open>
  An \<^verbatim>\<open>ExprTemplate<LeftExpr, BinaryOp, RightExpr>\<close> holds its two operands by reference.
  An operand is a container held as \<^verbatim>\<open>const SeqContainer&\<close> (every left operand that is a
  container, and a right operand that was a const lvalue), a container held as
  \<^verbatim>\<open>SeqContainer&\<close> or \<^verbatim>\<open>SeqContainer&&\<close> (a right operand that was a non-const lvalue or
  a temporary), or another node. The tree carries the current elements of each container
  it refers to; one container referred to from two places is not modelled.
\<close>

datatype expr =
  Const_Ref "intmax SeqContainer"
  | Mutable_Ref "intmax SeqContainer"
  | Node expr binary_op expr

text \<open>\<^verbatim>\<open>ExprTemplate::size()\<close>: the left size unless it is zero.\<close>

fun expr_size :: "expr \<Rightarrow> nat" where
  "expr_size (Const_Ref c) = size_seq c"
| "expr_size (Mutable_Ref c) = size_seq c"
| "expr_size (Node l bop r) = (if expr_size l \<noteq> 0 then expr_size l else expr_size r)"

text \<open>
  Indexing a container operand gives an lvalue, which binds to \<^verbatim>\<open>T const&\<close>; indexing a
  node gives a prvalue, which binds to \<^verbatim>\<open>T&&\<close>. This selects the overload of
  \<^verbatim>\<open>BinaryOp::apply\<close>.
\<close>

fun is_node :: "expr \<Rightarrow> bool" where
  "is_node (Node l bop r) = True"
| "is_node (Const_Ref c) = False"
| "is_node (Mutable_Ref c) = False"

definition overload_of :: "expr \<Rightarrow> expr \<Rightarrow> overload" where
  "overload_of l r =
     (if is_node l then (if is_node r then rvalue_rvalue else rvalue_const)
      else (if is_node r then const_rvalue else const_const))"

text \<open>
  \<^verbatim>\<open>ExprTemplate::operator[]\<close> is \<^verbatim>\<open>BinaryOp::apply(left_expr()[index], right_expr()[index])\<close>.
  On a \<^verbatim>\<open>const SeqContainer&\<close> the index is the const \<^verbatim>\<open>operator[]\<close>; on a
  \<^verbatim>\<open>SeqContainer&\<close> it is the mutable one, which may grow the container, so the result
  carries the tree with the containers as they are after the read.
\<close>

fun expr_index :: "expr \<Rightarrow> nat \<Rightarrow> error + (intmax \<times> expr)" where
  "expr_index (Const_Ref c) i = Inr (index_const c i, Const_Ref c)"
| "expr_index (Mutable_Ref c) i =
     (case index_mut_read c i of
        Inl e \<Rightarrow> Inl e
      | Inr (v, c') \<Rightarrow> Inr (v, Mutable_Ref c'))"
| "expr_index (Node l bop r) i =
     (case expr_index l i of
        Inl e \<Rightarrow> Inl e
      | Inr (a, l') \<Rightarrow>
          (case expr_index r i of
             Inl e \<Rightarrow> Inl e
           | Inr (b, r') \<Rightarrow>
               (case apply_op bop (overload_of l r) a b of
                  Inl e \<Rightarrow> Inl e
                | Inr v \<Rightarrow> Inr (v, Node l' bop r'))))"

section \<open>Elementwise updates of a container\<close>

text \<open>
  Modelled from the spec: \<^verbatim>\<open>max_val\<close> is called by the container but declared in no file
  of the repository at hand; the spec gives the bound of the pass as the larger of the two
  sizes.
\<close>

definition max_val :: "nat \<Rightarrow> nat \<Rightarrow> nat" where
  "max_val a b = max a b"

text \<open>
  The shared prologue of every binary pass: \<^verbatim>\<open>if (_sequence.size() < limit) resize(limit + 1)\<close>.
  Here \<open>limit\<close> is the size of a container, which \<^verbatim>\<open>max_size()\<close> keeps below \<open>SIZE_MAX\<close>,
  so the sum is the natural number \<open>limit + 1\<close>.
\<close>

definition grow_for :: "nat \<Rightarrow> 'a::zero SeqContainer \<Rightarrow> 'a SeqContainer" where
  "grow_for limit c = (if length c < limit then resize (limit + 1) c else c)"

text \<open>
  The loop of \<^verbatim>\<open>operator OP=(const SeqContainer& b)\<close>:
  \<^verbatim>\<open>for (i = 0; i < limit; ++i) _sequence[i] OP= b[i]\<close>, where \<^verbatim>\<open>b[i]\<close> is the const
  \<^verbatim>\<open>operator[]\<close>.
\<close>

function assign_loop ::
  "('a \<Rightarrow> 'a \<Rightarrow> error + 'a) \<Rightarrow> nat \<Rightarrow> nat \<Rightarrow> 'a::zero list \<Rightarrow> 'a SeqContainer \<Rightarrow> error + 'a list"
where
  "assign_loop f i limit xs b =
     (if i < limit then
        (case vector_at xs i of
           Inl e \<Rightarrow> Inl e
         | Inr x \<Rightarrow>
             (case f x (index_const b i) of
                Inl e \<Rightarrow> Inl e
              | Inr v \<Rightarrow> assign_loop f (i + 1) limit (xs[i := v]) b))
      else Inr xs)"
  by pat_completeness auto
termination
  by (relation "measure (\<lambda>(f, i, limit, xs, b). limit - i)") auto

declare assign_loop.simps [simp del]

definition compound_assign ::
  "binary_op \<Rightarrow> intmax SeqContainer \<Rightarrow> intmax SeqContainer \<Rightarrow> error + intmax SeqContainer"
where
  "compound_assign bop c b =
     (let limit = max_val (length c) (size_seq b)
      in assign_loop (builtin_assign bop) 0 limit (grow_for limit c) b)"

text \<open>
  The loop of the member template \<^verbatim>\<open>operator OP=(RightExpr&& re)\<close>:
  \<^verbatim>\<open>_sequence[i] OP= re[i]\<close>. The operand is a node, or a container passed as a non-const
  lvalue (\<open>Mutable_Ref\<close>), for which the template is the better match. The result is the
  receiver together with the operand after the pass.
\<close>

function assign_expr_loop ::
  "(intmax \<Rightarrow> intmax \<Rightarrow> error + intmax) \<Rightarrow> nat \<Rightarrow> nat \<Rightarrow> intmax list \<Rightarrow> expr
     \<Rightarrow> error + (intmax list \<times> expr)"
where
  "assign_expr_loop f i limit xs re =
     (if i < limit then
        (case vector_at xs i of
           Inl e \<Rightarrow> Inl e
         | Inr x \<Rightarrow>
             (case expr_index re i of
                Inl e \<Rightarrow> Inl e
              | Inr (y, re') \<Rightarrow>
                  (case f x y of
                     Inl e \<Rightarrow> Inl e
                   | Inr v \<Rightarrow> assign_expr_loop f (i + 1) limit (xs[i := v]) re')))
      else Inr (xs, re))"
  by pat_completeness auto
termination
  by (relation "measure (\<lambda>(f, i, limit, xs, re). limit - i)") auto

declare assign_expr_loop.simps [simp del]

definition compound_assign_expr ::
  "binary_op \<Rightarrow> intmax SeqContainer \<Rightarrow> expr \<Rightarrow> error + (intmax SeqContainer \<times> expr)"
where
  "compound_assign_expr bop c re =
     (let limit = max_val (length c) (expr_size re)
      in assign_expr_loop (builtin_assign bop) 0 limit (grow_for limit c) re)"

text \<open>
  The binary \<^verbatim>\<open>apply(const SeqContainer& b, func)\<close>, the same for both signatures of
  \<^verbatim>\<open>func\<close>: the loop body is \<^verbatim>\<open>_sequence[i] = func(_sequence[i], b._sequence[i])\<close>, which
  reads the vector of \<open>b\<close> directly.
\<close>

function apply_loop ::
  "('a \<Rightarrow> 'a \<Rightarrow> 'a) \<Rightarrow> nat \<Rightarrow> nat \<Rightarrow> 'a list \<Rightarrow> 'a list \<Rightarrow> error + 'a list"
where
  "apply_loop func i limit xs b =
     (if i < limit then
        (case vector_at xs i of
           Inl e \<Rightarrow> Inl e
         | Inr x \<Rightarrow>
             (case vector_at b i of
                Inl e \<Rightarrow> Inl e
              | Inr y \<Rightarrow> apply_loop func (i + 1) limit (xs[i := func x y]) b))
      else Inr xs)"
  by pat_completeness auto
termination
  by (relation "measure (\<lambda>(func, i, limit, xs, b). limit - i)") auto

declare apply_loop.simps [simp del]

definition apply_binary ::
  "'a::zero SeqContainer \<Rightarrow> 'a SeqContainer \<Rightarrow> ('a \<Rightarrow> 'a \<Rightarrow> 'a) \<Rightarrow> error + 'a SeqContainer"
where
  "apply_binary c b func =
     (let limit = max_val (length c) (length b)
      in apply_loop func 0 limit (grow_for limit c) b)"

subsection \<open>Unary operators\<close>

text \<open>
  \<^verbatim>\<open>operator~\<close> runs \<^verbatim>\<open>_sequence[i] = ~_sequence[i]\<close> over the receiver and returns
  \<^verbatim>\<open>*this\<close> by value. \<^verbatim>\<open>operator-\<close> copies the receiver into \<open>a\<close>, runs
  \<^verbatim>\<open>a._sequence[i] = -a._sequence[i]\<close> and returns \<open>a\<close>. Both results are pairs: the
  receiver after the call, and the value returned.
\<close>

function complement_loop :: "nat \<Rightarrow> nat \<Rightarrow> intmax list \<Rightarrow> error + intmax list" where
  "complement_loop i limit xs =
     (if i < limit then
        (case vector_at xs i of
           Inl e \<Rightarrow> Inl e
         | Inr x \<Rightarrow> complement_loop (i + 1) limit (xs[i := builtin_compl x]))
      else Inr xs)"
  by pat_completeness auto
termination
  by (relation "measure (\<lambda>(i, limit, xs). limit - i)") auto

declare complement_loop.simps [simp del]

definition operator_complement ::
  "intmax SeqContainer \<Rightarrow> error + (intmax SeqContainer \<times> intmax SeqContainer)"
where
  "operator_complement c =
     (case complement_loop 0 (length c) c of
        Inl e \<Rightarrow> Inl e
      | Inr c' \<Rightarrow> Inr (c', c'))"

function negate_loop :: "nat \<Rightarrow> nat \<Rightarrow> intmax list \<Rightarrow> error + intmax list" where
  "negate_loop i limit xs =
     (if i < limit then
        (case vector_at xs i of
           Inl e \<Rightarrow> Inl e
         | Inr x \<Rightarrow>
             (case builtin_neg x of
                Inl e \<Rightarrow> Inl e
              | Inr v \<Rightarrow> negate_loop (i + 1) limit (xs[i := v])))
      else Inr xs)"
  by pat_completeness auto
termination
  by (relation "measure (\<lambda>(i, limit, xs). limit - i)") auto

declare negate_loop.simps [simp del]

definition operator_minus ::
  "intmax SeqContainer \<Rightarrow> error + (intmax SeqContainer \<times> intmax SeqContainer)"
where
  "operator_minus c =
     (let a = c
      in case negate_loop 0 (length a) a of
           Inl e \<Rightarrow> Inl e
         | Inr a' \<Rightarrow> Inr (c, a'))"

section \<open>Properties of the container\<close>

subsection \<open>Comparison\<close>



subsection \<open>Indexed read and write\<close>

lemma size_t_add_1: "i < SIZE_MAX \<Longrightarrow> size_t_add i 1 = i + 1"
  by (simp add: size_t_add_def SIZE_MAX_def)

lemma index_mut_grow:
  assumes "length c \<le> i" "i < SIZE_MAX"
  shows "index_mut c i = c @ replicate (i + 1 - length c) 0"
proof -
  have "index_mut c i = resize (i + 1) c"
    using assms by (simp only: index_mut_def size_t_add_1 if_True)
  then show ?thesis
    using assms by (simp add: resize_def resize_value_def vector_resize_def)
qed

lemma update_last_of_fill:
  assumes "length c \<le> i"
  shows "(c @ replicate (i + 1 - length c) z)[i := v] = c @ replicate (i - length c) z @ [v]"
proof -
  from assms have "i + 1 - length c = Suc (i - length c)" by simp
  then have "replicate (i + 1 - length c) z = replicate (i - length c) z @ [z]"
    by (simp add: replicate_append_same)
  then show ?thesis using assms by (simp add: list_update_append)
qed

lemma index_mut_read_grow:
  assumes "length c \<le> i" "i < SIZE_MAX"
  shows "index_mut_read c i = Inr (0, c @ replicate (i + 1 - length c) 0)"
proof -
  have "vector_at (c @ replicate (i + 1 - length c) 0) i = Inr 0"
    using assms by (simp add: vector_at_def nth_append)
  then show ?thesis
    using assms by (simp add: index_mut_read_def index_mut_grow)
qed

lemma index_mut_write_grow:
  assumes "length c \<le> i" "i < SIZE_MAX"
  shows "index_mut_write c i v = Inr (c @ replicate (i - length c) 0 @ [v])"
proof -
  have "vector_at (c @ replicate (i + 1 - length c) 0) i = Inr 0"
    using assms by (simp add: vector_at_def nth_append)
  then show ?thesis
    using assms by (simp only: index_mut_write_def index_mut_grow Let_def sum.case
        update_last_of_fill)
qed

text \<open>
  At the largest index the sum \<open>index + 1\<close> is 0: the container is emptied and the slot
  lies beyond it.
\<close>

lemma index_mut_write_SIZE_MAX:
  "length c \<le> SIZE_MAX \<Longrightarrow> index_mut_write c SIZE_MAX v = Inl OutOfBounds"
  by (simp add: index_mut_write_def index_mut_def size_t_add_def SIZE_MAX_def resize_def
      resize_value_def vector_resize_def vector_at_def)

lemma builtin_add_zero: "builtin_add 0 0 = Inr 0"
  by (simp add: builtin_add_def checked_def representable_def)

text \<open>
  Claim C5. The const indexed read returns the element at \<open>i\<close> when \<open>i\<close> is below the
  size and the zero element otherwise; it is a total function of the container and the
  index and gives back no changed container. Hence for containers \<open>m\<close>, \<open>n\<close> and an index
  at or beyond both lengths, the node \<open>m + n\<close> indexed there yields zero: at every index
  when \<open>n\<close> is held as a const reference, and at every index below \<open>SIZE_MAX\<close> when \<open>n\<close>
  is held as a non-const reference, which the read grows.
\<close>

theorem indexed_read_total:
  "index_const c i = (if i < size_seq c then c ! i else 0)
   \<and> (max (size_seq m) (size_seq n) \<le> i \<longrightarrow>
        expr_index (Node (Const_Ref m) Add_Op (Const_Ref n)) i
          = Inr (0, Node (Const_Ref m) Add_Op (Const_Ref n)))
   \<and> (max (size_seq m) (size_seq n) \<le> i \<and> i < SIZE_MAX \<longrightarrow>
        expr_index (Node (Const_Ref m) Add_Op (Mutable_Ref n)) i
          = Inr (0, Node (Const_Ref m) Add_Op
                      (Mutable_Ref (n @ replicate (i + 1 - size_seq n) 0))))"
proof (intro conjI impI)
  show "index_const c i = (if i < size_seq c then c ! i else 0)"
    by (simp add: index_const_def size_seq_def def_value_def)
next
  assume "max (size_seq m) (size_seq n) \<le> i"
  then have "length m \<le> i" and "length n \<le> i"
    by (simp_all add: size_seq_def)
  then show "expr_index (Node (Const_Ref m) Add_Op (Const_Ref n)) i
          = Inr (0, Node (Const_Ref m) Add_Op (Const_Ref n))"
    by (simp add: index_const_def def_value_def overload_of_def builtin_add_zero)
next
  assume "max (size_seq m) (size_seq n) \<le> i \<and> i < SIZE_MAX"
  then have m: "length m \<le> i" and n: "length n \<le> i" and i: "i < SIZE_MAX"
    by (simp_all add: size_seq_def)
  from n i have "index_mut_read n i = Inr (0, n @ replicate (i + 1 - length n) 0)"
    by (rule index_mut_read_grow)
  then show "expr_index (Node (Const_Ref m) Add_Op (Mutable_Ref n)) i
          = Inr (0, Node (Const_Ref m) Add_Op
                      (Mutable_Ref (n @ replicate (i + 1 - size_seq n) 0)))"
    using m
    by (simp add: index_const_def def_value_def overload_of_def builtin_add_zero size_seq_def)
qed

theorem indexed_read_total_witness:
  "index_const [4, 5 :: int] 1 = 5 \<and> index_const [4, 5 :: int] 2 = 0
   \<and> max (size_seq [1, 2 :: intmax]) (size_seq [3 :: intmax]) \<le> 2 \<and> 2 < SIZE_MAX
   \<and> expr_index (Node (Const_Ref [1, 2]) Add_Op (Const_Ref [3])) 2
        = Inr (0, Node (Const_Ref [1, 2]) Add_Op (Const_Ref [3]))
   \<and> expr_index (Node (Const_Ref [1, 2]) Add_Op (Mutable_Ref [3])) 2
        = Inr (0, Node (Const_Ref [1, 2]) Add_Op (Mutable_Ref [3, 0, 0]))"
proof -
  have b: "(2 :: nat) < SIZE_MAX" by (simp add: SIZE_MAX_def)
  have r: "replicate 2 (0 :: intmax) = [0, 0]" by (simp add: numeral_2_eq_2)
  show ?thesis
    using indexed_read_total [of "[4, 5 :: int]" 1 "[1, 2]" "[3]"]
      indexed_read_total [of "[4, 5 :: int]" 2 "[1, 2]" "[3]"] b r
    by (simp add: size_seq_def)
qed

text \<open>
  Claim C6. A mutable indexed write at an index \<open>i\<close> not below the size, with \<open>i\<close> below
  \<open>SIZE_MAX\<close> so that \<open>i + 1\<close> is a \<^verbatim>\<open>std::size_t\<close>, grows the container to exactly
  \<open>i + 1\<close> elements, the gap filled with zeros, and then assigns slot \<open>i\<close>. Writing \<open>v\<close>
  at index 999 of an empty container gives 1000 elements: 999 zeros followed by \<open>v\<close>.
\<close>

theorem indexed_write_grows:
  "(size_seq c \<le> i \<and> i < SIZE_MAX \<longrightarrow>
      index_mut c i = c @ replicate (i + 1 - size_seq c) 0
      \<and> size_seq (index_mut c i) = i + 1
      \<and> index_mut_write c i v = Inr (c @ replicate (i - size_seq c) 0 @ [v]))
   \<and> index_mut_write [] 999 v = Inr (replicate 999 0 @ [v])
   \<and> size_seq (replicate 999 0 @ [v]) = 1000"
proof (intro conjI impI)
  assume "size_seq c \<le> i \<and> i < SIZE_MAX"
  then have c: "length c \<le> i" and i: "i < SIZE_MAX"
    by (simp_all add: size_seq_def)
  from c i show "index_mut c i = c @ replicate (i + 1 - size_seq c) 0"
    by (simp add: size_seq_def index_mut_grow)
  from c i show "size_seq (index_mut c i) = i + 1"
    by (simp add: size_seq_def index_mut_grow)
  from c i show "index_mut_write c i v = Inr (c @ replicate (i - size_seq c) 0 @ [v])"
    by (simp add: size_seq_def index_mut_write_grow)
next
  have "(999 :: nat) < SIZE_MAX" by (simp add: SIZE_MAX_def)
  then show "index_mut_write [] 999 v = Inr (replicate 999 0 @ [v])"
    using index_mut_write_grow [of "[]" 999 v] by simp
next
  show "size_seq (replicate 999 0 @ [v]) = 1000"
    by (simp add: size_seq_def)
qed

theorem indexed_write_grows_witness:
  "size_seq [7, 8 :: int] \<le> 4 \<and> 4 < SIZE_MAX
   \<and> index_mut_write [7, 8 :: int] 4 5 = Inr [7, 8, 0, 0, 5]
   \<and> size_seq (index_mut [7, 8 :: int] 4) = 5"
proof -
  have b: "(4 :: nat) < SIZE_MAX" by (simp add: SIZE_MAX_def)
  have r: "replicate 3 (0 :: int) = [0, 0, 0]" "replicate 2 (0 :: int) = [0, 0]"
    by (simp_all add: numeral_3_eq_3 numeral_2_eq_2)
  show ?thesis
    using indexed_write_grows [of "[7, 8 :: int]" 4 5] b r
    by (simp add: size_seq_def)
qed

subsection \<open>Rotation\<close>

lemma length_zero_front: "length (zero_front i s xs) = length xs"
  by (induction i s xs rule: zero_front.induct) (simp add: zero_front.simps)

lemma length_zero_back: "length (zero_back i l xs) = length xs"
  by (induction i l xs rule: zero_back.induct) (simp add: zero_back.simps)

lemma length_ranges_rotate: "length (ranges_rotate m xs) = length xs"
  by (simp add: ranges_rotate_def)

lemma length_rotate_left: "length (rotate_left s c) = length c"
  by (simp add: rotate_left_def length_ranges_rotate)

lemma length_rotate_right: "length (rotate_right s c) = length c"
  by (simp add: rotate_right_def length_ranges_rotate)

lemma rotate_left_eq_Nil: "rotate_left s c = [] \<longleftrightarrow> c = []"
  using length_rotate_left [of s c] by (metis length_0_conv)

lemma rotate_right_eq_Nil: "rotate_right s c = [] \<longleftrightarrow> c = []"
  using length_rotate_right [of s c] by (metis length_0_conv)

lemma length_rotate_left_and_drop: "length (rotate_left_and_drop s c) = length c"
  by (simp add: rotate_left_and_drop_def Let_def length_zero_front length_rotate_left
      rotate_left_eq_Nil)

lemma length_rotate_right_and_drop: "length (rotate_right_and_drop s c) = length c"
  by (simp add: rotate_right_and_drop_def Let_def length_zero_back length_rotate_right
      rotate_right_eq_Nil)

text \<open>What the two zeroing loops leave at each position.\<close>

lemma zero_front_nth:
  "s \<le> length xs \<Longrightarrow> zero_front i s xs ! j = (if i \<le> j \<and> j < s then 0 else xs ! j)"
proof (induction i s xs rule: zero_front.induct)
  case (1 i s xs)
  show ?case
  proof (cases "i < s")
    case True
    with 1 show ?thesis
      by (subst zero_front.simps) (auto simp: nth_list_update)
  next
    case False
    then show ?thesis by (subst zero_front.simps) auto
  qed
qed

lemma zero_back_nth:
  "i \<le> length xs \<Longrightarrow> zero_back i l xs ! j = (if l \<le> j \<and> j < i then 0 else xs ! j)"
proof (induction i l xs rule: zero_back.induct)
  case (1 i l xs)
  show ?case
  proof (cases "i > l")
    case True
    with 1 show ?thesis
      by (subst zero_back.simps) (auto simp: nth_list_update)
  next
    case False
    then show ?thesis by (subst zero_back.simps) auto
  qed
qed

lemma rotate_left_and_drop_zeroed:
  assumes "c \<noteq> []" "i < s mod length c"
  shows "rotate_left_and_drop s c ! i = 0"
proof -
  have "s mod length c \<le> length (rotate_left s c)"
    using assms by (simp add: length_rotate_left less_imp_le)
  then show ?thesis
    using assms by (simp add: rotate_left_and_drop_def Let_def length_rotate_left
        rotate_left_eq_Nil zero_front_nth)
qed

lemma rotate_right_and_drop_zeroed:
  assumes "c \<noteq> []" "length c - s mod length c \<le> i" "i < length c"
  shows "rotate_right_and_drop s c ! i = 0"
  using assms by (simp add: rotate_right_and_drop_def Let_def length_rotate_right
      rotate_right_eq_Nil zero_back_nth)

text \<open>The two circular rotations undo each other, in either order.\<close>

lemma rotate_right_left: "rotate_right s (rotate_left s c) = c"
proof (cases "c = []")
  case True
  then show ?thesis by (simp add: rotate_right_def rotate_left_def)
next
  case False
  define n where "n = length c"
  define r where "r = s mod n"
  have n: "0 < n" and r: "r < n" using False by (simp_all add: n_def r_def)
  have "rotate_left s c = drop (n - r) c @ take (n - r) c"
    using n by (simp add: rotate_left_def ranges_rotate_def n_def r_def)
  moreover have "length (drop (n - r) c) = r"
    using r by (simp add: n_def)
  ultimately have "rotate_right s (rotate_left s c) = take (n - r) c @ drop (n - r) c"
    using n by (simp add: rotate_right_def ranges_rotate_def n_def [symmetric] r_def [symmetric])
  then show ?thesis by simp
qed

lemma rotate_left_right: "rotate_left s (rotate_right s c) = c"
proof (cases "c = []")
  case True
  then show ?thesis by (simp add: rotate_right_def rotate_left_def)
next
  case False
  define n where "n = length c"
  define r where "r = s mod n"
  have n: "0 < n" and r: "r < n" using False by (simp_all add: n_def r_def)
  have "rotate_right s c = drop r c @ take r c"
    using n by (simp add: rotate_right_def ranges_rotate_def n_def r_def)
  moreover have "length (drop r c) = n - r"
    by (simp add: n_def)
  ultimately have "rotate_left s (rotate_right s c) = take r c @ drop r c"
    using n r by (simp add: rotate_left_def ranges_rotate_def n_def [symmetric] r_def [symmetric])
  then show ?thesis by simp
qed

lemma rotate_right_0: "rotate_right 0 c = c"
  by (simp add: rotate_right_def ranges_rotate_def)

text \<open>The \<^verbatim>\<open>int\<close> argument: its range, its negation and its conversions.\<close>

lemma sint_INT_MIN: "sint INT_MIN = - (2 ^ 31)"
  by (simp add: INT_MIN_def)

lemma sint_above_INT_MIN:
  assumes "k \<noteq> INT_MIN"
  shows "- (2 ^ 31) < sint k"
proof -
  have "- (2 ^ 31) \<le> sint k" using sint_ge [of k] by simp
  moreover have "sint k \<noteq> - (2 ^ 31)"
  proof
    assume "sint k = - (2 ^ 31)"
    then have "word_of_int (sint k) = INT_MIN" by (simp add: INT_MIN_def)
    then show False using assms by simp
  qed
  ultimately show ?thesis by simp
qed

lemma sint_below: "sint (k :: c_int) < 2 ^ 31"
  using sint_lt [of k] by simp

lemma sint_minus_c_int:
  assumes "k \<noteq> INT_MIN"
  shows "sint (- k) = - sint k"
proof -
  have "- (2 ^ 31) \<le> - sint k" using sint_below [of k] by simp
  moreover have "- sint k < 2 ^ 31" using sint_above_INT_MIN [OF assms] by simp
  ultimately have "signed_take_bit 31 (- sint k) = - sint k"
    by (simp add: signed_take_bit_int_eq_self)
  then show ?thesis by (simp add: sint_word_ariths)
qed

lemma minus_not_INT_MIN:
  assumes "k \<noteq> INT_MIN"
  shows "- k \<noteq> INT_MIN"
proof
  assume "- k = INT_MIN"
  then have "sint (- k) = - (2 ^ 31)" by (simp add: sint_INT_MIN)
  then have "sint k = 2 ^ 31" using sint_minus_c_int [OF assms] by simp
  then show False using sint_below [of k] by simp
qed

lemma size_t_of_int_nonneg: "0 \<le> sint j \<Longrightarrow> size_t_of_int j = nat (sint j)"
proof -
  assume "0 \<le> sint j"
  moreover have "sint j < 2 ^ 64" using sint_below [of j] by simp
  ultimately show ?thesis by (simp add: size_t_of_int_def)
qed

lemma std_abs_nonpos:
  assumes "k \<noteq> INT_MIN" "sint k \<le> 0"
  shows "\<exists>a. std_abs k = Inr a \<and> size_t_of_int a = nat (- sint k)"
proof (cases "sint k < 0")
  case True
  then have "std_abs k = Inr (- k)" using assms by (simp add: std_abs_def)
  moreover have "size_t_of_int (- k) = nat (- sint k)"
    using True assms by (simp add: size_t_of_int_nonneg sint_minus_c_int)
  ultimately show ?thesis by simp
next
  case False
  then have z: "sint k = 0" using assms by simp
  then have "std_abs k = Inr k" using assms by (simp add: std_abs_def)
  moreover have "size_t_of_int k = nat (- sint k)"
    using z by (simp add: size_t_of_int_nonneg)
  ultimately show ?thesis by simp
qed

lemma cshift_defined:
  assumes "k \<noteq> INT_MIN"
  shows "cshift k c = Inr (if 0 < sint k then rotate_left (nat (sint k)) c
                           else rotate_right (nat (- sint k)) c)"
proof (cases "0 < sint k")
  case True
  then show ?thesis by (simp add: cshift_def size_t_of_int_nonneg)
next
  case False
  then have "sint k \<le> 0" by simp
  from std_abs_nonpos [OF assms this] False show ?thesis
    by (auto simp: cshift_def)
qed

lemma shift_defined:
  assumes "k \<noteq> INT_MIN"
  shows "shift k c = Inr (if 0 < sint k then rotate_left_and_drop (nat (sint k)) c
                          else rotate_right_and_drop (nat (- sint k)) c)"
proof (cases "0 < sint k")
  case True
  then show ?thesis by (simp add: shift_def size_t_of_int_nonneg)
next
  case False
  then have "sint k \<le> 0" by simp
  from std_abs_nonpos [OF assms this] False show ?thesis
    by (auto simp: shift_def)
qed

text \<open>At the least \<^verbatim>\<open>int\<close> both methods evaluate \<^verbatim>\<open>std::abs\<close> where it is undefined.\<close>

lemma shift_INT_MIN: "shift INT_MIN c = Inl SignedOverflow \<and> cshift INT_MIN c = Inl SignedOverflow"
  by (simp add: shift_def cshift_def std_abs_def sint_INT_MIN)

lemma cshift_inverse:
  assumes "k \<noteq> INT_MIN"
  shows "\<exists>c'. cshift k c = Inr c' \<and> cshift (- k) c' = Inr c"
proof -
  note nk = minus_not_INT_MIN [OF assms]
  note sk = sint_minus_c_int [OF assms]
  consider "sint k > 0" | "sint k = 0" | "sint k < 0" by linarith
  then show ?thesis
  proof cases
    case 1
    then show ?thesis
      by (simp add: cshift_defined [OF assms] cshift_defined [OF nk] sk rotate_right_left)
  next
    case 2
    then show ?thesis
      by (simp add: cshift_defined [OF assms] cshift_defined [OF nk] sk rotate_right_0)
  next
    case 3
    then show ?thesis
      by (simp add: cshift_defined [OF assms] cshift_defined [OF nk] sk rotate_left_right)
  qed
qed

lemma shift_not_inverse:
  "shift 1 [1, 2, 3 :: intmax] = Inr [0, 1, 2] \<and> shift (- 1) [0, 1, 2 :: intmax] = Inr [1, 2, 0]"
  by (simp add: shift_def std_abs_def INT_MIN_def size_t_of_int_def rotate_left_and_drop_def
      rotate_right_and_drop_def rotate_left_def rotate_right_def ranges_rotate_def
      zero_front.simps zero_back.simps)

text \<open>
  Claim C7. For a container \<open>c\<close> and an \<^verbatim>\<open>int\<close> \<open>k\<close> whose negation is an \<^verbatim>\<open>int\<close> (every
  \<open>k\<close> but the least), \<open>cshift k\<close> followed by \<open>cshift (- k)\<close> restores the elements of
  \<open>c\<close>. \<open>shift\<close> does not have this property: the positions that the rotation wrapped
  around are set to zero (the first \<open>k mod L\<close> positions for a positive \<open>k\<close>, the last
  \<open>|k| mod L\<close> otherwise), and \<open>shift 1\<close> followed by \<open>shift (- 1)\<close> turns \<open>(1, 2, 3)\<close>
  into \<open>(1, 2, 0)\<close>.
\<close>

theorem cshift_invertible_shift_drops:
  "(k \<noteq> INT_MIN \<longrightarrow> (\<exists>c'. cshift k c = Inr c' \<and> cshift (- k) c' = Inr c))
   \<and> (0 < sint k \<and> c \<noteq> [] \<and> i < nat (sint k) mod size_seq c
        \<longrightarrow> (\<exists>c'. shift k c = Inr c' \<and> c' ! i = 0))
   \<and> (sint k \<le> 0 \<and> k \<noteq> INT_MIN \<and> c \<noteq> []
        \<and> size_seq c - nat (- sint k) mod size_seq c \<le> i \<and> i < size_seq c
        \<longrightarrow> (\<exists>c'. shift k c = Inr c' \<and> c' ! i = 0))
   \<and> shift 1 [1, 2, 3 :: intmax] = Inr [0, 1, 2]
   \<and> shift (- 1) [0, 1, 2 :: intmax] = Inr [1, 2, 0]"
proof (intro conjI impI)
  assume "k \<noteq> INT_MIN"
  then show "\<exists>c'. cshift k c = Inr c' \<and> cshift (- k) c' = Inr c"
    by (rule cshift_inverse)
next
  assume "0 < sint k \<and> c \<noteq> [] \<and> i < nat (sint k) mod size_seq c"
  then have k: "0 < sint k" and c: "c \<noteq> []" and i: "i < nat (sint k) mod length c"
    unfolding size_seq_def by blast+
  from k have "k \<noteq> INT_MIN" by (auto simp: sint_INT_MIN)
  then have "shift k c = Inr (rotate_left_and_drop (nat (sint k)) c)"
    using k by (simp add: shift_defined)
  then show "\<exists>c'. shift k c = Inr c' \<and> c' ! i = 0"
    using rotate_left_and_drop_zeroed [OF c i] by simp
next
  assume "sint k \<le> 0 \<and> k \<noteq> INT_MIN \<and> c \<noteq> []
        \<and> size_seq c - nat (- sint k) mod size_seq c \<le> i \<and> i < size_seq c"
  then have k: "sint k \<le> 0" "k \<noteq> INT_MIN" and c: "c \<noteq> []"
    and i: "length c - nat (- sint k) mod length c \<le> i" "i < length c"
    unfolding size_seq_def by blast+
  have "shift k c = Inr (rotate_right_and_drop (nat (- sint k)) c)"
    using k by (simp add: shift_defined)
  then show "\<exists>c'. shift k c = Inr c' \<and> c' ! i = 0"
    using rotate_right_and_drop_zeroed [OF c i] by simp
next
  show "shift 1 [1, 2, 3 :: intmax] = Inr [0, 1, 2]"
    using shift_not_inverse by blast
next
  show "shift (- 1) [0, 1, 2 :: intmax] = Inr [1, 2, 0]"
    using shift_not_inverse by blast
qed

theorem cshift_invertible_shift_drops_witness:
  "(2 :: c_int) \<noteq> INT_MIN
   \<and> cshift 2 [1, 2, 3 :: int] = Inr [2, 3, 1] \<and> cshift (- 2) [2, 3, 1 :: int] = Inr [1, 2, 3]
   \<and> 0 < sint (2 :: c_int) \<and> 1 < nat (sint (2 :: c_int)) mod size_seq [1, 2, 3 :: int]
   \<and> shift 2 [1, 2, 3 :: int] = Inr [0, 0, 1]
   \<and> sint (- 1 :: c_int) \<le> 0 \<and> (- 1 :: c_int) \<noteq> INT_MIN
   \<and> size_seq [1, 2, 3 :: int] - nat (- sint (- 1 :: c_int)) mod size_seq [1, 2, 3 :: int] \<le> 2
   \<and> shift (- 1) [1, 2, 3 :: int] = Inr [2, 3, 0]"
  using cshift_invertible_shift_drops [of 2 "[1, 2, 3 :: int]" 1]
    cshift_invertible_shift_drops [of "- 1" "[1, 2, 3 :: int]" 2]
  by (simp add: size_seq_def shift_def cshift_def std_abs_def INT_MIN_def size_t_of_int_def
      rotate_left_and_drop_def rotate_right_and_drop_def rotate_left_def rotate_right_def
      ranges_rotate_def zero_front.simps zero_back.simps)

text \<open>
  Claim C8. For every container \<open>c\<close> and every \<^verbatim>\<open>int\<close> \<open>k\<close> at which \<^verbatim>\<open>std::abs\<close> is
  defined (every \<open>k\<close> but the least), \<open>shift k\<close> and \<open>cshift k\<close> return and leave the size
  of \<open>c\<close> unchanged.
\<close>

theorem rotation_preserves_size:
  "k \<noteq> INT_MIN \<longrightarrow>
     (\<exists>c'. shift k c = Inr c' \<and> size_seq c' = size_seq c)
     \<and> (\<exists>c'. cshift k c = Inr c' \<and> size_seq c' = size_seq c)"
  by (simp add: shift_defined cshift_defined size_seq_def length_rotate_left
      length_rotate_right length_rotate_left_and_drop length_rotate_right_and_drop)

theorem rotation_preserves_size_witness:
  "(2 :: c_int) \<noteq> INT_MIN
   \<and> shift 2 [1, 2, 3 :: int] = Inr [0, 0, 1] \<and> size_seq [0, 0, 1 :: int] = size_seq [1, 2, 3 :: int]
   \<and> cshift 2 [1, 2, 3 :: int] = Inr [2, 3, 1] \<and> size_seq [2, 3, 1 :: int] = size_seq [1, 2, 3 :: int]"
  using rotation_preserves_size [of 2 "[1, 2, 3 :: int]"]
  by (simp add: size_seq_def shift_def cshift_def std_abs_def INT_MIN_def size_t_of_int_def
      rotate_left_and_drop_def rotate_right_and_drop_def rotate_left_def rotate_right_def
      ranges_rotate_def zero_front.simps zero_back.simps)

subsection \<open>Unary operators\<close>

text \<open>Negation is defined for every value but the least one.\<close>

lemma builtin_neg_defined:
  assumes "x \<noteq> INTMAX_MIN"
  shows "builtin_neg x = Inr (- x)"
proof -
  have lo: "- (2 ^ 63) \<le> sint x" using sint_ge [of x] by simp
  have hi: "sint x < 2 ^ 63" using sint_lt [of x] by simp
  have "sint x \<noteq> - (2 ^ 63)"
  proof
    assume "sint x = - (2 ^ 63)"
    then have "word_of_int (sint x) = INTMAX_MIN" by (simp add: INTMAX_MIN_def)
    then show False using assms by simp
  qed
  with lo hi have "representable (- sint x)" by (simp add: representable_def)
  then show ?thesis by (simp add: builtin_neg_def checked_def)
qed

lemma complement_loop_closed:
  "limit \<le> length xs \<Longrightarrow>
   complement_loop i limit xs =
     Inr (map (\<lambda>j. if i \<le> j \<and> j < limit then NOT (xs ! j) else xs ! j) [0..<length xs])"
proof (induction i limit xs rule: complement_loop.induct)
  case (1 i limit xs)
  show ?case
  proof (cases "i < limit")
    case True
    with 1 have "complement_loop i limit xs
        = Inr (map (\<lambda>j. if i + 1 \<le> j \<and> j < limit then NOT (xs[i := NOT (xs ! i)] ! j)
                          else xs[i := NOT (xs ! i)] ! j) [0..<length xs])"
      by (subst complement_loop.simps) (simp add: vector_at_def builtin_compl_def)
    also have "\<dots> = Inr (map (\<lambda>j. if i \<le> j \<and> j < limit then NOT (xs ! j) else xs ! j)
                          [0..<length xs])"
      using True by (auto simp: nth_list_update not_less_eq_eq le_antisym)
    finally show ?thesis .
  next
    case False
    then have "complement_loop i limit xs = Inr xs"
      by (subst complement_loop.simps) simp
    moreover have "map (\<lambda>j. if i \<le> j \<and> j < limit then NOT (xs ! j) else xs ! j)
                     [0..<length xs] = xs"
      using False by (intro nth_equalityI) auto
    ultimately show ?thesis by simp
  qed
qed

lemma negate_loop_closed:
  "limit \<le> length xs \<Longrightarrow> \<forall>j. i \<le> j \<and> j < limit \<longrightarrow> xs ! j \<noteq> INTMAX_MIN \<Longrightarrow>
   negate_loop i limit xs =
     Inr (map (\<lambda>j. if i \<le> j \<and> j < limit then - (xs ! j) else xs ! j) [0..<length xs])"
proof (induction i limit xs rule: negate_loop.induct)
  case (1 i limit xs)
  show ?case
  proof (cases "i < limit")
    case True
    then have i: "i < length xs" using "1.prems" by simp
    have at: "vector_at xs i = Inr (xs ! i)" using i by (simp add: vector_at_def)
    have neg: "builtin_neg (xs ! i) = Inr (- (xs ! i))"
      using "1.prems" True by (simp add: builtin_neg_defined)
    have keep: "\<forall>j. i + 1 \<le> j \<and> j < limit \<longrightarrow> xs[i := - (xs ! i)] ! j \<noteq> INTMAX_MIN"
      using "1.prems" by (simp add: nth_list_update)
    have len: "limit \<le> length (xs[i := - (xs ! i)])" using "1.prems" by simp
    have "negate_loop i limit xs = negate_loop (i + 1) limit (xs[i := - (xs ! i)])"
      using True at neg by (subst negate_loop.simps) simp
    also have "\<dots> = Inr (map (\<lambda>j. if i + 1 \<le> j \<and> j < limit then - (xs[i := - (xs ! i)] ! j)
                          else xs[i := - (xs ! i)] ! j) [0..<length xs])"
      using "1.IH" [OF True at neg len keep] by simp
    also have "\<dots> = Inr (map (\<lambda>j. if i \<le> j \<and> j < limit then - (xs ! j) else xs ! j)
                          [0..<length xs])"
      using True by (auto simp: nth_list_update not_less_eq_eq le_antisym)
    finally show ?thesis .
  next
    case False
    then have "negate_loop i limit xs = Inr xs"
      by (subst negate_loop.simps) simp
    moreover have "map (\<lambda>j. if i \<le> j \<and> j < limit then - (xs ! j) else xs ! j)
                     [0..<length xs] = xs"
      using False by (intro nth_equalityI) auto
    ultimately show ?thesis by simp
  qed
qed

lemma map_nth_all:
  "map (\<lambda>j. if 0 \<le> j \<and> j < length xs then f (xs ! j) else xs ! j) [0..<length xs] = map f xs"
  by (intro nth_equalityI) auto

text \<open>
  Claim C10. \<^verbatim>\<open>operator~\<close> replaces every element of the receiver by its bitwise
  complement and returns a copy of the receiver so changed. \<^verbatim>\<open>operator-\<close> never changes
  the receiver; it returns the elementwise negation (defined when no element is the
  least value of the element type).
\<close>

theorem complement_mutates_minus_copies:
  "operator_complement c = Inr (map builtin_compl c, map builtin_compl c)
   \<and> ((\<forall>x \<in> set c. x \<noteq> INTMAX_MIN) \<longrightarrow> operator_minus c = Inr (c, map uminus c))
   \<and> (\<forall>r a. operator_minus c = Inr (r, a) \<longrightarrow> r = c)"
proof (intro conjI impI allI)
  show "operator_complement c = Inr (map builtin_compl c, map builtin_compl c)"
    using map_nth_all [of c NOT]
    by (simp add: operator_complement_def complement_loop_closed builtin_compl_def [abs_def])
next
  assume "\<forall>x \<in> set c. x \<noteq> INTMAX_MIN"
  then have "\<forall>j. 0 \<le> j \<and> j < length c \<longrightarrow> c ! j \<noteq> INTMAX_MIN" by simp
  then have "negate_loop 0 (length c) c = Inr (map uminus c)"
    using map_nth_all [of c uminus] by (simp add: negate_loop_closed)
  then show "operator_minus c = Inr (c, map uminus c)"
    by (simp add: operator_minus_def)
next
  fix r a assume "operator_minus c = Inr (r, a)"
  then show "r = c" by (simp add: operator_minus_def split: sum.splits)
qed

theorem complement_mutates_minus_copies_witness:
  "operator_complement [0, 1] = Inr ([- 1, - 2], [- 1, - 2])
   \<and> (0 :: intmax) \<noteq> INTMAX_MIN \<and> (1 :: intmax) \<noteq> INTMAX_MIN
   \<and> operator_minus [0, 1] = Inr ([0, 1], [0, - 1])"
  using complement_mutates_minus_copies [of "[0, 1]"]
  by (simp add: builtin_compl_def INTMAX_MIN_def)

section \<open>Where the code departs from the specification\<close>

subsection \<open>Compound assignment\<close>

lemma length_assign_loop:
  "assign_loop f i limit xs b = Inr ys \<Longrightarrow> length ys = length xs"
proof (induction f i limit xs b rule: assign_loop.induct)
  case (1 f i limit xs b)
  show ?case
  proof (cases "i < limit")
    case True
    with "1.prems" obtain x v where
      x: "vector_at xs i = Inr x" and v: "f x (index_const b i) = Inr v"
      and r: "assign_loop f (i + 1) limit (xs[i := v]) b = Inr ys"
      by (subst (asm) assign_loop.simps) (auto split: sum.splits)
    from "1.IH" [OF True x v r] show ?thesis by simp
  next
    case False
    with "1.prems" show ?thesis by (subst (asm) assign_loop.simps) simp
  qed
qed

text \<open>
  Whenever the receiver is the shorter container, \<^verbatim>\<open>resize(limit + 1)\<close> leaves it one
  element longer than the operand.
\<close>

lemma size_compound_assign:
  assumes "compound_assign bop c b = Inr r"
  shows "size_seq r = (if size_seq c < size_seq b then size_seq b + 1 else size_seq c)"
proof -
  have "length r = length (grow_for (max (length c) (length b)) c)"
    using assms length_assign_loop
    by (fastforce simp: compound_assign_def max_val_def size_seq_def Let_def)
  then show ?thesis
    by (auto simp: size_seq_def grow_for_def resize_def resize_value_def vector_resize_def)
qed

text \<open>
  Claim C1 says that after \<open>m += n\<close> with \<open>m = (1, 2, 3)\<close> and \<open>n = (0, 1, 2, 3, 4)\<close> the
  receiver has size 5 and elements \<open>(1, 3, 5, 3, 4)\<close>. Both overloads of \<^verbatim>\<open>operator+=\<close>
  give it six elements, the last a zero that the pass never visits.
\<close>

theorem compound_assign_extra_element:
  "compound_assign Add_Op [1, 2, 3] [0, 1, 2, 3, 4] = Inr [1, 3, 5, 3, 4, 0]
   \<and> compound_assign_expr Add_Op [1, 2, 3] (Mutable_Ref [0, 1, 2, 3, 4])
       = Inr ([1, 3, 5, 3, 4, 0], Mutable_Ref [0, 1, 2, 3, 4])"
  by code_simp

subsection \<open>The catalogue\<close>

text \<open>
  Eight of the ten structs compute the same value in all four overloads, and so do three
  of the four overloads of each of the remaining two.
\<close>

lemma overloads_agree:
  "bop \<noteq> Mod_Op \<Longrightarrow> bop \<noteq> LeftShift_Op \<Longrightarrow>
   apply_op bop ov a b = apply_op bop const_const a b"
  by (cases bop; cases ov)
     (simp_all add: builtin_add_def builtin_mul_def builtin_and_def builtin_or_def
        builtin_xor_def add.commute mult.commute and.commute or.commute xor.commute)

text \<open>
  Claim C2 says that all four overloads of every catalogue operation return the same
  result and that left shift never reverses. \<^verbatim>\<open>LeftShift_Op::apply(T const&, T&&)\<close>
  shifts right: on \<open>a = 1\<close>, \<open>b = 1\<close> it gives 0 where the other three give 2.
\<close>

theorem left_shift_overload_reverses:
  "apply_op LeftShift_Op const_const 1 1 = Inr 2
   \<and> apply_op LeftShift_Op rvalue_const 1 1 = Inr 2
   \<and> apply_op LeftShift_Op const_rvalue 1 1 = Inr 0
   \<and> apply_op LeftShift_Op rvalue_rvalue 1 1 = Inr 2"
  by code_simp

text \<open>
  Claim C3 says that modulo by zero yields zero in all four overloads and in
  \<open>container %= container\<close>. Only \<^verbatim>\<open>Mod_Op::apply(T const&, T const&)\<close> tests the
  divisor; the other three overloads and both forms of \<^verbatim>\<open>operator%=\<close> divide by it.
\<close>

theorem modulo_by_zero_unguarded:
  "apply_op Mod_Op const_const 5 0 = Inr 0
   \<and> apply_op Mod_Op rvalue_const 5 0 = Inl DivisionByZero
   \<and> apply_op Mod_Op const_rvalue 5 0 = Inl DivisionByZero
   \<and> apply_op Mod_Op rvalue_rvalue 5 0 = Inl DivisionByZero
   \<and> compound_assign Mod_Op [5] [0] = Inl DivisionByZero
   \<and> compound_assign_expr Mod_Op [5] (Mutable_Ref [0]) = Inl DivisionByZero"
  by code_simp

subsection \<open>Binary apply\<close>

lemma apply_loop_reads_beyond:
  "i \<le> length b \<Longrightarrow> length b < limit \<Longrightarrow> limit \<le> length xs \<Longrightarrow>
   apply_loop func i limit xs b = Inl OutOfBounds"
proof (induction func i limit xs b rule: apply_loop.induct)
  case (1 func i limit xs b)
  then have i: "i < limit" "i < length xs" by simp_all
  show ?case
  proof (cases "i < length b")
    case True
    then have y: "vector_at b i = Inr (b ! i)" by (simp add: vector_at_def)
    have x: "vector_at xs i = Inr (xs ! i)" using i by (simp add: vector_at_def)
    have "apply_loop func (i + 1) limit (xs[i := func (xs ! i) (b ! i)]) b = Inl OutOfBounds"
      using "1.IH" [OF i(1) x y] True "1.prems" by simp
    then show ?thesis using i x y by (subst apply_loop.simps) simp
  next
    case False
    then show ?thesis using i by (subst apply_loop.simps) (simp add: vector_at_def)
  qed
qed

text \<open>With a shorter operand the pass always reaches an index beyond the operand's vector.\<close>

lemma apply_binary_shorter_operand:
  "length b < length c \<Longrightarrow> apply_binary c b func = Inl OutOfBounds"
  by (simp add: apply_binary_def max_val_def grow_for_def apply_loop_reads_beyond)

text \<open>
  Claim C9 says that \<open>a.apply(b, func)\<close> with \<open>b\<close> shorter than \<open>a\<close> reads \<open>b\<close> with the
  zero fill of the const indexed read and never goes out of range. The pass reads
  \<^verbatim>\<open>b._sequence[i]\<close> instead: on \<open>a = (1, 2, 3)\<close>, \<open>b = (1)\<close> it reads \<open>b\<close>'s vector at
  index 1, beyond its size, while \<open>a += b\<close> on the same operands reads zeros.
\<close>

theorem apply_binary_reads_out_of_range:
  "apply_binary [1, 2, 3 :: intmax] [1] (\<lambda>x y. x + y) = Inl OutOfBounds
   \<and> compound_assign Add_Op [1, 2, 3] [1] = Inr [2, 2, 3]"
  by code_simp

end
